theory Spec2Isabelle
  imports Main "HOL-Library.Word" "HOL-Library.Sublist"
begin

unbundle bit_operations_syntax

section \<open>Data model\<close>

text \<open>
  The architecture class \<open>GB\<close> of \<open>__init__.py\<close> decodes one Game Boy instruction from
  a byte string \<open>data\<close> and an address \<open>addr\<close>. The byte string is a list of 8-bit
  words; everything the code computes from it is a Python integer, hence \<open>int\<close>,
  with no wrap-around anywhere.
\<close>

type_synonym byte = "8 word"

text \<open>
  The exceptions that escape the two entry points: indexing a byte string out of
  range, and \<open>struct.unpack\<close> on a string of the wrong size. The \<open>KeyError\<close> of the
  table lookup is caught by the code and never escapes.
\<close>

datatype py_error = IndexError | StructError

text \<open>The branch kinds of the host's \<open>BranchType\<close> enumeration.\<close>

datatype BranchType =
    UnconditionalBranch
  | FalseBranch
  | TrueBranch
  | CallDestination
  | FunctionReturn
  | SystemCall
  | IndirectBranch
  | UnresolvedBranch

text \<open>
  An entry of the opcode table, as the code reads it: \<open>op_info['mnemonic']\<close>,
  \<open>op_info['length']\<close>, and the keys \<open>operand1\<close> and \<open>operand2\<close>, which may be absent.
\<close>

record op_info =
  mnemonic :: string
  length_op :: int
  operand1 :: "string option"
  operand2 :: "string option"

text \<open>
  The table \<open>GB.opcodes\<close> is the \<open>unprefixed\<close> object of the data file
  \<open>opcodes.json\<close>, a dictionary keyed by strings such as \<open>0x18\<close>. The data file is
  not part of the sources, so the table is a parameter of every function below.
\<close>

type_synonym opcode_table = "string \<rightharpoonup> op_info"

text \<open>
  \<open>InstructionInfo\<close>: the length and the branches added by \<open>add_branch\<close>, each with the
  target the code passes (none for \<open>FunctionReturn\<close>).
\<close>

record InstructionInfo =
  length_ii :: int
  branches :: "(BranchType \<times> int option) list"

definition add_branch :: "InstructionInfo \<Rightarrow> BranchType \<Rightarrow> int option \<Rightarrow> InstructionInfo" where
  "add_branch i_info ty target = i_info\<lparr>branches := branches i_info @ [(ty, target)]\<rparr>"

section \<open>Byte strings, \<open>struct.unpack\<close> and \<open>%x\<close>\<close>

text \<open>\<open>data[i]\<close> for a non-negative index: \<open>IndexError\<close> out of range.\<close>

definition index_py :: "'a list \<Rightarrow> nat \<Rightarrow> py_error + 'a" where
  "index_py xs i = (if i < length xs then Inr (xs ! i) else Inl IndexError)"

text \<open>\<open>data[i:j]\<close> for \<open>0 \<le> i \<le> j\<close>: never fails, the slice is cut at the end.\<close>

definition slice_py :: "'a list \<Rightarrow> nat \<Rightarrow> nat \<Rightarrow> 'a list" where
  "slice_py xs i j = take (j - i) (drop i xs)"

text \<open>\<open>struct.unpack('<B', s)[0]\<close>: exactly one byte, read unsigned.\<close>

definition unpack_B :: "byte list \<Rightarrow> py_error + int" where
  "unpack_B s = (case s of [b] \<Rightarrow> Inr (uint b) | _ \<Rightarrow> Inl StructError)"

text \<open>\<open>struct.unpack('<H', s)[0]\<close>: exactly two bytes, little-endian, unsigned.\<close>

definition unpack_H :: "byte list \<Rightarrow> py_error + int" where
  "unpack_H s = (case s of [lo, hi] \<Rightarrow> Inr (uint lo + 256 * uint hi) | _ \<Rightarrow> Inl StructError)"

definition hex_digit :: "nat \<Rightarrow> char" where
  "hex_digit d = ''0123456789abcdef'' ! (d mod 16)"

text \<open>The lower-case hexadecimal digits of a natural number, most significant first.\<close>

function hex :: "nat \<Rightarrow> string" where
  "hex n = (if n < 16 then [hex_digit n] else hex (n div 16) @ [hex_digit n])"
  by pat_completeness auto
termination
  by (relation "measure id") auto

declare hex.simps [simp del]

text \<open>
  \<open>"%.Nx" % v\<close>: at least \<open>N\<close> hexadecimal digits, padded with zeros on the left, and a
  minus sign for a negative value. \<open>"%x" % v\<close> is the case \<open>N = 0\<close>.
\<close>

definition fmt_x :: "nat \<Rightarrow> int \<Rightarrow> string" where
  "fmt_x prec v =
     (let ds = hex (nat \<bar>v\<bar>)
      in (if v < 0 then ''-'' else '''') @ replicate (prec - length ds) CHR ''0'' @ ds)"

text \<open>The dictionary key of an opcode: \<open>"0x%x" % opcode\<close>.\<close>

definition opcode_key :: "int \<Rightarrow> string" where
  "opcode_key opcode = ''0x'' @ fmt_x 0 opcode"

text \<open>\<open>str.lower()\<close> on the ASCII strings of the table.\<close>

definition lower_char :: "char \<Rightarrow> char" where
  "lower_char c =
     (let n = (of_char c :: nat) in if 65 \<le> n \<and> n \<le> 90 then char_of (n + 32) else c)"

definition lower :: "string \<Rightarrow> string" where
  "lower s = map lower_char s"

section \<open>\<open>GB.perform_get_instruction_info\<close>\<close>

text \<open>
  The function reads the opcode, looks its entry up under the key \<open>"0x%x" % opcode\<close>
  and returns \<open>None\<close> when there is none. Otherwise the length is the entry's, and the
  branches are chosen by mnemonic and then by opcode value. Operand bytes are read
  only in the branches that need them.
\<close>

definition perform_get_instruction_info ::
    "opcode_table \<Rightarrow> byte list \<Rightarrow> int \<Rightarrow> py_error + InstructionInfo option" where
  "perform_get_instruction_info opcodes data addr =
     (case index_py data 0 of Inl e \<Rightarrow> Inl e | Inr c \<Rightarrow>
      (case unpack_B [c] of Inl e \<Rightarrow> Inl e | Inr opcode \<Rightarrow>
       (case opcodes (opcode_key opcode) of None \<Rightarrow> Inr None | Some op_info \<Rightarrow>
        (let i_info = \<lparr>length_ii = length_op op_info, branches = []\<rparr> in
         if mnemonic op_info = ''JR'' then
           (case unpack_B (slice_py data 1 2) of Inl e \<Rightarrow> Inl e | Inr arg \<Rightarrow>
             if opcode = 0x28 \<or> opcode = 0x38 then
               Inr (Some (add_branch (add_branch i_info TrueBranch (Some (addr + 2 + arg)))
                                     FalseBranch (Some (addr + 2))))
             else if opcode = 0x20 \<or> opcode = 0x30 then
               Inr (Some (add_branch (add_branch i_info TrueBranch (Some (addr + 2)))
                                     FalseBranch (Some (addr - (NOT arg AND 0xff) + 1))))
             else
               Inr (Some (add_branch i_info UnconditionalBranch
                                     (Some (addr - (NOT arg AND 0xff) + 1)))))
         else if mnemonic op_info = ''JP'' then
           (if opcode = 0xe9 then
              Inr (Some (add_branch i_info UnconditionalBranch (Some 0xdead)))
            else
              (case unpack_H (slice_py data 1 3) of Inl e \<Rightarrow> Inl e | Inr arg \<Rightarrow>
                if opcode = 0xca \<or> opcode = 0xda then
                  Inr (Some (add_branch (add_branch i_info TrueBranch (Some arg))
                                        FalseBranch (Some (addr + 3))))
                else if opcode = 0xc0 \<or> opcode = 0xd0 then
                  Inr (Some (add_branch (add_branch i_info TrueBranch (Some (addr + 3)))
                                        FalseBranch (Some arg)))
                else
                  Inr (Some (add_branch i_info UnconditionalBranch (Some arg)))))
         else if mnemonic op_info = ''RET'' then
           Inr (Some (add_branch i_info FunctionReturn None))
         else if mnemonic op_info = ''CALL'' then
           (case unpack_H (slice_py data 1 3) of Inl e \<Rightarrow> Inl e | Inr arg \<Rightarrow>
             Inr (Some (add_branch i_info CallDestination (Some arg))))
         else Inr (Some i_info)))))"

section \<open>\<open>GB.get_token\<close> and \<open>GB.perform_get_instruction_text\<close>\<close>

text \<open>The token kinds of the host's \<open>InstructionTextTokenType\<close> that the code uses.\<close>

datatype InstructionTextTokenType =
    TextToken
  | InstructionToken
  | OperandSeparatorToken
  | RegisterToken
  | IntegerToken
  | PossibleAddressToken

text \<open>
  A token as the code constructs it: kind, text, and the value argument, which the
  code passes for integer and address tokens only.
\<close>

record InstructionTextToken =
  token_type :: InstructionTextTokenType
  token_text :: string
  token_value :: "int option"

text \<open>
  The regular expressions of \<open>get_token\<close> are alternatives of literal strings:
  \<open>(d|r|a)8\<close> is one of \<open>d8\<close>, \<open>r8\<close>, \<open>a8\<close>, and so on. \<open>re.match\<close> looks for one of
  them at the start of the operand, \<open>re.search\<close> at any position from left to right.
\<close>

definition re_match :: "string list \<Rightarrow> string \<Rightarrow> bool" where
  "re_match alts s = list_ex (\<lambda>p. prefix p s) alts"

fun re_search :: "string list \<Rightarrow> string \<Rightarrow> bool" where
  "re_search alts [] = re_match alts []"
| "re_search alts (c # cs) = (re_match alts (c # cs) \<or> re_search alts cs)"

definition tag8 :: "string list" where
  "tag8 = [''d8'', ''r8'', ''a8'']"

definition tag16 :: "string list" where
  "tag16 = [''d16'', ''r16'', ''a16'']"

definition reg_names :: "string list" where
  "reg_names = [''A'', ''B'', ''C'', ''D'', ''E'', ''F'', ''H'', ''L'', ''SP'', ''PC'']"

definition get_token :: "string \<Rightarrow> byte list \<Rightarrow> py_error + InstructionTextToken" where
  "get_token operand data =
     (if re_search tag8 operand then
        (case index_py data 1 of Inl e \<Rightarrow> Inl e | Inr c \<Rightarrow>
         (case unpack_B [c] of Inl e \<Rightarrow> Inl e | Inr v \<Rightarrow>
           if re_match tag8 operand then
             Inr \<lparr>token_type = IntegerToken, token_text = ''0x'' @ fmt_x 2 v,
                  token_value = Some v\<rparr>
           else
             Inr \<lparr>token_type = PossibleAddressToken, token_text = ''0x'' @ fmt_x 4 v,
                  token_value = Some v\<rparr>))
      else if re_search tag16 operand then
        (case unpack_H (slice_py data 1 3) of Inl e \<Rightarrow> Inl e | Inr v \<Rightarrow>
          if re_match tag16 operand then
            Inr \<lparr>token_type = IntegerToken, token_text = ''0x'' @ fmt_x 4 v,
                 token_value = Some v\<rparr>
          else
            Inr \<lparr>token_type = PossibleAddressToken, token_text = ''0x'' @ fmt_x 4 v,
                 token_value = Some v\<rparr>)
      else if re_search reg_names operand then
        (if re_match reg_names operand then
           Inr \<lparr>token_type = RegisterToken, token_text = lower operand, token_value = None\<rparr>
         else
           Inr \<lparr>token_type = RegisterToken, token_text = lower operand, token_value = None\<rparr>)
      else
        Inr \<lparr>token_type = RegisterToken, token_text = lower operand, token_value = None\<rparr>)"

text \<open>
  The renderer returns \<open>None\<close> for an opcode without an entry, and otherwise the pair
  of the token list and the entry's length. The second operand is looked at only
  when the first is present.
\<close>

definition perform_get_instruction_text ::
    "opcode_table \<Rightarrow> byte list \<Rightarrow> int \<Rightarrow> py_error + (InstructionTextToken list \<times> int) option" where
  "perform_get_instruction_text opcodes data addr =
     (case index_py data 0 of Inl e \<Rightarrow> Inl e | Inr c \<Rightarrow>
      (case unpack_B [c] of Inl e \<Rightarrow> Inl e | Inr opcode \<Rightarrow>
       (case opcodes (opcode_key opcode) of None \<Rightarrow> Inr None | Some op_info \<Rightarrow>
        (let tokens = [\<lparr>token_type = InstructionToken, token_text = lower (mnemonic op_info),
                         token_value = None\<rparr>] in
         case operand1 op_info of
           None \<Rightarrow> Inr (Some (tokens, length_op op_info))
         | Some o1 \<Rightarrow>
            (let tokens = tokens @ [\<lparr>token_type = OperandSeparatorToken, token_text = ''    '',
                                      token_value = None\<rparr>] in
             case get_token o1 data of Inl e \<Rightarrow> Inl e | Inr t1 \<Rightarrow>
              (let tokens = tokens @ [t1] in
               case operand2 op_info of
                 None \<Rightarrow> Inr (Some (tokens, length_op op_info))
               | Some o2 \<Rightarrow>
                  (let tokens = tokens @ [\<lparr>token_type = OperandSeparatorToken,
                                            token_text = '', '', token_value = None\<rparr>] in
                   case get_token o2 data of Inl e \<Rightarrow> Inl e | Inr t2 \<Rightarrow>
                     Inr (Some (tokens @ [t2], length_op op_info)))))))))"

section \<open>A table excerpt\<close>

text \<open>
  A few entries in the shape of the data file (mnemonic, length and operand
  descriptors of the Game Boy instruction set), for evaluating the functions at
  concrete inputs.
\<close>

definition sample_opcodes :: opcode_table where
  "sample_opcodes = map_of [
     (''0x0'',  \<lparr>mnemonic = ''NOP'', length_op = 1, operand1 = None, operand2 = None\<rparr>),
     (''0x18'', \<lparr>mnemonic = ''JR'', length_op = 2, operand1 = Some ''r8'', operand2 = None\<rparr>),
     (''0x20'', \<lparr>mnemonic = ''JR'', length_op = 2, operand1 = Some ''NZ'', operand2 = Some ''r8''\<rparr>),
     (''0x28'', \<lparr>mnemonic = ''JR'', length_op = 2, operand1 = Some ''Z'', operand2 = Some ''r8''\<rparr>),
     (''0x3e'', \<lparr>mnemonic = ''LD'', length_op = 2, operand1 = Some ''A'', operand2 = Some ''d8''\<rparr>),
     (''0xc0'', \<lparr>mnemonic = ''RET'', length_op = 1, operand1 = Some ''NZ'', operand2 = None\<rparr>),
     (''0xc3'', \<lparr>mnemonic = ''JP'', length_op = 3, operand1 = Some ''a16'', operand2 = None\<rparr>),
     (''0xc9'', \<lparr>mnemonic = ''RET'', length_op = 1, operand1 = None, operand2 = None\<rparr>),
     (''0xca'', \<lparr>mnemonic = ''JP'', length_op = 3, operand1 = Some ''Z'', operand2 = Some ''a16''\<rparr>),
     (''0xcd'', \<lparr>mnemonic = ''CALL'', length_op = 3, operand1 = Some ''a16'', operand2 = None\<rparr>),
     (''0xe0'', \<lparr>mnemonic = ''LDH'', length_op = 2, operand1 = Some ''(a8)'', operand2 = Some ''A''\<rparr>),
     (''0xe9'', \<lparr>mnemonic = ''JP'', length_op = 1, operand1 = Some ''(HL)'', operand2 = None\<rparr>)]"

section \<open>The relative target as the specification states it\<close>

text \<open>
  The specification describes the target of a relative jump as the address after the
  two-byte instruction plus the displacement byte read as a signed 8-bit number. These
  two definitions follow its words, for comparison with the expression of the code.
\<close>

definition spec_sign_extend_8 :: "int \<Rightarrow> int" where
  "spec_sign_extend_8 arg = (if arg < 0x80 then arg else arg - 256)"

definition spec_relative_target :: "int \<Rightarrow> int \<Rightarrow> int" where
  "spec_relative_target address arg = address + 2 + spec_sign_extend_8 arg"

section \<open>Arithmetic of the operand bytes\<close>

text \<open>
  On a byte value, \<open>~arg & 0xff\<close> is \<open>255 - arg\<close>, so the expression
  \<open>addr - (~arg & 0xff) + 1\<close> of the code is \<open>addr + arg - 254\<close>.
\<close>

lemma not_and_ff:
  assumes "0 \<le> a" "a < 256"
  shows "NOT a AND 0xff = 255 - (a::int)"
proof -
  have "NOT a AND 0xff = take_bit 8 (NOT a)"
    by (simp add: take_bit_eq_mask mask_eq_exp_minus_1)
  also have "\<dots> = (- a - 1) mod 256"
    by (simp add: take_bit_eq_mod not_int_def)
  also have "\<dots> = 255 - a"
    using assms by (intro Euclidean_Rings.int_mod_pos_eq[where q="-1"]) auto
  finally show ?thesis .
qed

lemma uint_byte_bounds: "0 \<le> uint (b::byte) \<and> uint b < 256"
  using uint_lt2p[of b] by simp

lemma not_and_ff_byte: "NOT (uint (b::byte)) AND 0xff = 255 - uint b"
  using uint_byte_bounds[of b] by (simp add: not_and_ff)

section \<open>The entries of the table excerpt\<close>

lemma sample_18: "sample_opcodes (opcode_key (uint (0x18::byte))) =
    Some \<lparr>mnemonic = ''JR'', length_op = 2, operand1 = Some ''r8'', operand2 = None\<rparr>"
  by code_simp

lemma sample_28: "sample_opcodes (opcode_key (uint (0x28::byte))) =
    Some \<lparr>mnemonic = ''JR'', length_op = 2, operand1 = Some ''Z'', operand2 = Some ''r8''\<rparr>"
  by code_simp

lemma sample_20: "sample_opcodes (opcode_key (uint (0x20::byte))) =
    Some \<lparr>mnemonic = ''JR'', length_op = 2, operand1 = Some ''NZ'', operand2 = Some ''r8''\<rparr>"
  by code_simp

lemma sample_ca: "sample_opcodes (opcode_key (uint (0xca::byte))) =
    Some \<lparr>mnemonic = ''JP'', length_op = 3, operand1 = Some ''Z'', operand2 = Some ''a16''\<rparr>"
  by code_simp

lemma sample_c3: "sample_opcodes (opcode_key (uint (0xc3::byte))) =
    Some \<lparr>mnemonic = ''JP'', length_op = 3, operand1 = Some ''a16'', operand2 = None\<rparr>"
  by code_simp

lemma sample_e9: "sample_opcodes (opcode_key (uint (0xe9::byte))) =
    Some \<lparr>mnemonic = ''JP'', length_op = 1, operand1 = Some ''(HL)'', operand2 = None\<rparr>"
  by code_simp

lemma sample_3e: "sample_opcodes (opcode_key (uint (0x3e::byte))) =
    Some \<lparr>mnemonic = ''LD'', length_op = 2, operand1 = Some ''A'', operand2 = Some ''d8''\<rparr>"
  by code_simp

lemma sample_c9: "sample_opcodes (opcode_key (uint (0xc9::byte))) =
    Some \<lparr>mnemonic = ''RET'', length_op = 1, operand1 = None, operand2 = None\<rparr>"
  by code_simp

lemma sample_d3: "sample_opcodes (opcode_key (uint (0xd3::byte))) = None"
  by code_simp

lemma key_c0: "opcode_key (uint (0xc0::byte)) = ''0xc0''"
  by code_simp

section \<open>Branches of the relative jumps\<close>

text \<open>
  What the function returns for an entry with mnemonic \<open>JR\<close> and a slice that holds
  the displacement byte.
\<close>

lemma jr_entry:
  assumes "opcodes (opcode_key (uint c)) = Some op_info" "mnemonic op_info = ''JR''"
  shows "perform_get_instruction_info opcodes (c # arg # rest) addr =
     (if uint c = 0x28 \<or> uint c = 0x38 then
        Inr (Some \<lparr>length_ii = length_op op_info,
          branches = [(TrueBranch, Some (addr + 2 + uint arg)), (FalseBranch, Some (addr + 2))]\<rparr>)
      else if uint c = 0x20 \<or> uint c = 0x30 then
        Inr (Some \<lparr>length_ii = length_op op_info,
          branches = [(TrueBranch, Some (addr + 2)),
                      (FalseBranch, Some (addr - (NOT (uint arg) AND 0xff) + 1))]\<rparr>)
      else
        Inr (Some \<lparr>length_ii = length_op op_info,
          branches = [(UnconditionalBranch, Some (addr - (NOT (uint arg) AND 0xff) + 1))]\<rparr>))"
  using assms
  by (simp add: perform_get_instruction_info_def index_py_def unpack_B_def slice_py_def
      add_branch_def)

text \<open>
  Claim C4. For an entry with mnemonic \<open>JR\<close> whose opcode is none of \<open>0x28\<close>, \<open>0x38\<close>,
  \<open>0x20\<close>, \<open>0x30\<close> (the unconditional relative jump \<open>0x18\<close> among them), at every
  address and for every displacement byte \<open>arg\<close>, the function returns exactly one
  branch, of kind \<open>UnconditionalBranch\<close>, with target \<open>addr - (~arg & 0xff) + 1\<close>. With
  the displacement byte \<open>0xfe\<close> at address \<open>0x0200\<close> the target is \<open>0x0200\<close>.
\<close>

theorem jr_unconditional_target:
  assumes "opcodes (opcode_key (uint c)) = Some op_info"
    and "mnemonic op_info = ''JR''"
    and "c \<noteq> 0x28" "c \<noteq> 0x38" "c \<noteq> 0x20" "c \<noteq> 0x30"
  shows "perform_get_instruction_info opcodes (c # arg # rest) addr =
           Inr (Some \<lparr>length_ii = length_op op_info,
             branches = [(UnconditionalBranch, Some (addr - (NOT (uint arg) AND 0xff) + 1))]\<rparr>)
       \<and> perform_get_instruction_info opcodes (c # 0xfe # rest) 0x200 =
           Inr (Some \<lparr>length_ii = length_op op_info,
             branches = [(UnconditionalBranch, Some 0x200)]\<rparr>)"
proof -
  have "uint c \<noteq> 0x28" "uint c \<noteq> 0x38" "uint c \<noteq> 0x20" "uint c \<noteq> 0x30"
    using assms(3-6) by (simp_all add: word_uint_eq_iff)
  then show ?thesis
    using assms(1,2) by (simp add: jr_entry)
qed

theorem jr_unconditional_target_witness:
  "perform_get_instruction_info sample_opcodes [0x18, 0x05, 0x00] 0x150 =
     Inr (Some \<lparr>length_ii = 2, branches = [(UnconditionalBranch, Some 0x57)]\<rparr>)
   \<and> perform_get_instruction_info sample_opcodes [0x18, 0xfe, 0x00] 0x200 =
     Inr (Some \<lparr>length_ii = 2, branches = [(UnconditionalBranch, Some 0x200)]\<rparr>)"
  using sample_18 jr_unconditional_target [where opcodes = sample_opcodes and c = "0x18"
      and arg = "0x05" and rest = "[0x00]" and addr = "0x150"]
  by simp

text \<open>
  Claim C5. For an entry with mnemonic \<open>JR\<close>, at every address and for every
  displacement byte \<open>arg\<close>: the opcodes \<open>0x28\<close> and \<open>0x38\<close> give exactly the pair
  \<open>TrueBranch (addr + 2 + arg)\<close>, \<open>FalseBranch (addr + 2)\<close>, and the opcodes \<open>0x20\<close> and
  \<open>0x30\<close> give exactly the pair \<open>TrueBranch (addr + 2)\<close>,
  \<open>FalseBranch (addr - (~arg & 0xff) + 1)\<close>.
\<close>

theorem jr_conditional_targets:
  assumes "opcodes (opcode_key (uint c)) = Some op_info"
    and "mnemonic op_info = ''JR''"
  shows "(c = 0x28 \<or> c = 0x38 \<longrightarrow>
            perform_get_instruction_info opcodes (c # arg # rest) addr =
              Inr (Some \<lparr>length_ii = length_op op_info,
                branches = [(TrueBranch, Some (addr + 2 + uint arg)),
                            (FalseBranch, Some (addr + 2))]\<rparr>))
       \<and> (c = 0x20 \<or> c = 0x30 \<longrightarrow>
            perform_get_instruction_info opcodes (c # arg # rest) addr =
              Inr (Some \<lparr>length_ii = length_op op_info,
                branches = [(TrueBranch, Some (addr + 2)),
                            (FalseBranch, Some (addr - (NOT (uint arg) AND 0xff) + 1))]\<rparr>))"
  using assms by (auto simp add: jr_entry)

theorem jr_conditional_targets_witness:
  "perform_get_instruction_info sample_opcodes [0x28, 0x05] 0x150 =
     Inr (Some \<lparr>length_ii = 2,
       branches = [(TrueBranch, Some 0x157), (FalseBranch, Some 0x152)]\<rparr>)
   \<and> perform_get_instruction_info sample_opcodes [0x20, 0xfb] 0x150 =
     Inr (Some \<lparr>length_ii = 2,
       branches = [(TrueBranch, Some 0x152), (FalseBranch, Some 0x14d)]\<rparr>)"
  using sample_28 sample_20
    jr_conditional_targets [where opcodes = sample_opcodes and c = "0x28"
      and arg = "0x05" and rest = "[]" and addr = "0x150"]
    jr_conditional_targets [where opcodes = sample_opcodes and c = "0x20"
      and arg = "0xfb" and rest = "[]" and addr = "0x150"]
  by simp

section \<open>Branches of the absolute jumps\<close>

text \<open>
  What the function returns for an entry with mnemonic \<open>JP\<close> and a slice that holds
  both operand bytes.
\<close>

lemma jp_entry:
  assumes "opcodes (opcode_key (uint c)) = Some op_info" "mnemonic op_info = ''JP''"
  shows "perform_get_instruction_info opcodes (c # lo # hi # rest) addr =
     (if uint c = 0xe9 then
        Inr (Some \<lparr>length_ii = length_op op_info,
          branches = [(UnconditionalBranch, Some 0xdead)]\<rparr>)
      else if uint c = 0xca \<or> uint c = 0xda then
        Inr (Some \<lparr>length_ii = length_op op_info,
          branches = [(TrueBranch, Some (uint lo + 256 * uint hi)),
                      (FalseBranch, Some (addr + 3))]\<rparr>)
      else if uint c = 0xc0 \<or> uint c = 0xd0 then
        Inr (Some \<lparr>length_ii = length_op op_info,
          branches = [(TrueBranch, Some (addr + 3)),
                      (FalseBranch, Some (uint lo + 256 * uint hi))]\<rparr>)
      else
        Inr (Some \<lparr>length_ii = length_op op_info,
          branches = [(UnconditionalBranch, Some (uint lo + 256 * uint hi))]\<rparr>))"
  using assms
  by (simp add: perform_get_instruction_info_def index_py_def unpack_B_def unpack_H_def
      slice_py_def add_branch_def)

text \<open>
  Claim C6. For an entry with mnemonic \<open>JP\<close>, at every address and for every operand
  word \<open>arg16 = lo + 256 * hi\<close>: the opcodes \<open>0xca\<close> and \<open>0xda\<close> give exactly
  \<open>TrueBranch arg16\<close>, \<open>FalseBranch (addr + 3)\<close>; the opcodes \<open>0xc0\<close> and \<open>0xd0\<close> give
  exactly \<open>TrueBranch (addr + 3)\<close>, \<open>FalseBranch arg16\<close>; every other opcode except
  \<open>0xe9\<close> gives exactly one \<open>UnconditionalBranch arg16\<close>.
\<close>

theorem jp_absolute_targets:
  assumes "opcodes (opcode_key (uint c)) = Some op_info"
    and "mnemonic op_info = ''JP''"
  shows "(c = 0xca \<or> c = 0xda \<longrightarrow>
            perform_get_instruction_info opcodes (c # lo # hi # rest) addr =
              Inr (Some \<lparr>length_ii = length_op op_info,
                branches = [(TrueBranch, Some (uint lo + 256 * uint hi)),
                            (FalseBranch, Some (addr + 3))]\<rparr>))
       \<and> (c = 0xc0 \<or> c = 0xd0 \<longrightarrow>
            perform_get_instruction_info opcodes (c # lo # hi # rest) addr =
              Inr (Some \<lparr>length_ii = length_op op_info,
                branches = [(TrueBranch, Some (addr + 3)),
                            (FalseBranch, Some (uint lo + 256 * uint hi))]\<rparr>))
       \<and> (c \<noteq> 0xe9 \<and> c \<noteq> 0xca \<and> c \<noteq> 0xda \<and> c \<noteq> 0xc0 \<and> c \<noteq> 0xd0 \<longrightarrow>
            perform_get_instruction_info opcodes (c # lo # hi # rest) addr =
              Inr (Some \<lparr>length_ii = length_op op_info,
                branches = [(UnconditionalBranch, Some (uint lo + 256 * uint hi))]\<rparr>))"
proof -
  have "c \<noteq> 0xe9 \<Longrightarrow> uint c \<noteq> 0xe9" "c \<noteq> 0xca \<Longrightarrow> uint c \<noteq> 0xca"
    "c \<noteq> 0xda \<Longrightarrow> uint c \<noteq> 0xda" "c \<noteq> 0xc0 \<Longrightarrow> uint c \<noteq> 0xc0"
    "c \<noteq> 0xd0 \<Longrightarrow> uint c \<noteq> 0xd0"
    by (simp_all add: word_uint_eq_iff)
  then show ?thesis
    using assms by (auto simp add: jp_entry)
qed

theorem jp_absolute_targets_witness:
  "perform_get_instruction_info sample_opcodes [0xca, 0x34, 0x12] 0x150 =
     Inr (Some \<lparr>length_ii = 3,
       branches = [(TrueBranch, Some 0x1234), (FalseBranch, Some 0x153)]\<rparr>)
   \<and> perform_get_instruction_info
       (sample_opcodes(''0xc0'' \<mapsto>
          \<lparr>mnemonic = ''JP'', length_op = 3, operand1 = Some ''a16'', operand2 = None\<rparr>))
       [0xc0, 0x34, 0x12] 0x150 =
     Inr (Some \<lparr>length_ii = 3,
       branches = [(TrueBranch, Some 0x153), (FalseBranch, Some 0x1234)]\<rparr>)
   \<and> perform_get_instruction_info sample_opcodes [0xc3, 0x34, 0x12] 0x150 =
     Inr (Some \<lparr>length_ii = 3, branches = [(UnconditionalBranch, Some 0x1234)]\<rparr>)"
  using sample_ca sample_c3 key_c0
    jp_absolute_targets [where opcodes = sample_opcodes and c = "0xca"
      and lo = "0x34" and hi = "0x12" and rest = "[]" and addr = "0x150"]
    jp_absolute_targets [where opcodes = "sample_opcodes(''0xc0'' \<mapsto>
          \<lparr>mnemonic = ''JP'', length_op = 3, operand1 = Some ''a16'', operand2 = None\<rparr>)"
      and c = "0xc0" and lo = "0x34" and hi = "0x12" and rest = "[]" and addr = "0x150"]
    jp_absolute_targets [where opcodes = sample_opcodes and c = "0xc3"
      and lo = "0x34" and hi = "0x12" and rest = "[]" and addr = "0x150"]
  by simp

text \<open>
  Claim C1. The claim asks for one \<open>IndirectUnresolved\<close> edge and no made-up target
  for the opcode \<open>0xe9\<close>. The code adds an \<open>UnconditionalBranch\<close> with the constant
  \<open>0xdead\<close> as its target, as the evaluation at the one-byte input \<open>e9\<close> shows.
\<close>

theorem jp_indirect_counterexample:
  "perform_get_instruction_info sample_opcodes [0xe9] 0x150 =
     Inr (Some \<lparr>length_ii = 1, branches = [(UnconditionalBranch, Some 0xdead)]\<rparr>)"
  using sample_e9
  by (simp add: perform_get_instruction_info_def index_py_def unpack_B_def add_branch_def)

text \<open>
  Claim C1, as the code has it. For every input whose first byte is \<open>0xe9\<close>, with an
  entry of mnemonic \<open>JP\<close>, at every address and whatever bytes follow, the function
  returns exactly one branch: an \<open>UnconditionalBranch\<close> whose target is the constant
  \<open>0xdead\<close>. No operand byte is read.
\<close>

theorem jp_indirect_placeholder:
  assumes "opcodes (opcode_key (uint (0xe9::byte))) = Some op_info"
    and "mnemonic op_info = ''JP''"
  shows "perform_get_instruction_info opcodes (0xe9 # rest) addr =
           Inr (Some \<lparr>length_ii = length_op op_info,
             branches = [(UnconditionalBranch, Some 0xdead)]\<rparr>)"
  using assms
  by (simp add: perform_get_instruction_info_def index_py_def unpack_B_def add_branch_def)

theorem jp_indirect_placeholder_witness:
  "perform_get_instruction_info sample_opcodes [0xe9, 0x00, 0x00] 0x4000 =
     Inr (Some \<lparr>length_ii = 1, branches = [(UnconditionalBranch, Some 0xdead)]\<rparr>)"
  using sample_e9 jp_indirect_placeholder [where opcodes = sample_opcodes
      and rest = "[0x00, 0x00]" and addr = "0x4000"]
  by simp

section \<open>Opcodes without an entry\<close>

text \<open>
  Claim C7. When the table has no entry under the key of the first byte, the
  \<open>KeyError\<close> is caught and the function returns \<open>None\<close>: no \<open>InstructionInfo\<close> is
  built, nothing is raised, and the caller receives that \<open>None\<close> as it is. The text
  renderer does the same.
\<close>

theorem unknown_opcode_returns_None:
  assumes "opcodes (opcode_key (uint c)) = None"
  shows "perform_get_instruction_info opcodes (c # rest) addr = Inr None
       \<and> perform_get_instruction_text opcodes (c # rest) addr = Inr None"
  using assms
  by (simp add: perform_get_instruction_info_def perform_get_instruction_text_def
      index_py_def unpack_B_def)

theorem unknown_opcode_returns_None_witness:
  "perform_get_instruction_info sample_opcodes [0xd3, 0x12] 0x150 = Inr None
   \<and> perform_get_instruction_text sample_opcodes [0xd3, 0x12] 0x150 = Inr None"
  using sample_d3 unknown_opcode_returns_None [where opcodes = sample_opcodes and c = "0xd3"
      and rest = "[0x12]" and addr = "0x150"]
  by simp

section \<open>Slices shorter than the instruction\<close>

text \<open>
  Claim C2. The claim asks for a \<open>TruncatedInstruction\<close> failure whenever the slice
  is shorter than the entry's length. The code compares no lengths: for the entry
  \<open>LD A,d8\<close> of length 2 and the one-byte slice \<open>3e\<close> it returns the information with
  length 2 and no error.
\<close>

theorem truncated_counterexample:
  "perform_get_instruction_info sample_opcodes [0x3e] 0x150 =
     Inr (Some \<lparr>length_ii = 2, branches = []\<rparr>)"
  using sample_3e
  by (simp add: perform_get_instruction_info_def index_py_def unpack_B_def)

text \<open>
  Claim C2, as the code has it. For every opcode byte with an entry and every slice
  that starts with it, of any size: the function fails, with the error of
  \<open>struct.unpack\<close>, exactly when it reads an operand that the slice does not hold,
  that is for mnemonic \<open>JR\<close> with no byte after the opcode, and for mnemonic \<open>JP\<close>
  (opcode other than \<open>0xe9\<close>) or \<open>CALL\<close> with fewer than two bytes after the opcode. In
  every other case, also when the slice is shorter than the declared length, it
  returns the information with the entry's length.
\<close>

theorem no_length_check:
  assumes "opcodes (opcode_key (uint c)) = Some op_info"
  shows "if mnemonic op_info = ''JR'' \<and> length rest < 1
            \<or> mnemonic op_info = ''JP'' \<and> c \<noteq> 0xe9 \<and> length rest < 2
            \<or> mnemonic op_info = ''CALL'' \<and> length rest < 2
         then perform_get_instruction_info opcodes (c # rest) addr = Inl StructError
         else (\<exists>i_info. perform_get_instruction_info opcodes (c # rest) addr = Inr (Some i_info)
                  \<and> length_ii i_info = length_op op_info)"
proof -
  have e9: "uint c = 0xe9 \<longleftrightarrow> c = 0xe9"
    by (simp add: word_uint_eq_iff)
  show ?thesis
  proof (cases rest)
    case Nil
    then show ?thesis using assms e9
      by (auto simp add: perform_get_instruction_info_def index_py_def unpack_B_def
          unpack_H_def slice_py_def add_branch_def Let_def)
  next
    case (Cons b rest')
    show ?thesis
    proof (cases rest')
      case Nil
      then show ?thesis using assms e9 Cons
        by (auto simp add: perform_get_instruction_info_def index_py_def unpack_B_def
            unpack_H_def slice_py_def add_branch_def Let_def)
    next
      case (Cons b' rest'')
      then show ?thesis using assms e9 \<open>rest = b # rest'\<close>
        by (auto simp add: perform_get_instruction_info_def index_py_def unpack_B_def
            unpack_H_def slice_py_def add_branch_def Let_def)
    qed
  qed
qed

theorem no_length_check_witness:
  "perform_get_instruction_info sample_opcodes [0x18] 0x150 = Inl StructError
   \<and> (\<exists>i_info. perform_get_instruction_info sample_opcodes [0x3e] 0x150 = Inr (Some i_info)
          \<and> length_ii i_info = 2)"
  using sample_18 sample_3e
    no_length_check [where opcodes = sample_opcodes and c = "0x18" and rest = "[]"
      and addr = "0x150"]
    no_length_check [where opcodes = sample_opcodes and c = "0x3e" and rest = "[]"
      and addr = "0x150"]
  by simp

section \<open>The relative target against the signed displacement\<close>

text \<open>
  The expression of the code agrees with the signed reading of the displacement for
  the bytes \<open>0x80\<close> to \<open>0xff\<close> and is 256 below it for the bytes \<open>0x00\<close> to \<open>0x7f\<close>.
\<close>

lemma code_target_backward:
  assumes "0x80 \<le> arg" "arg < 256"
  shows "addr - (NOT arg AND 0xff) + 1 = spec_relative_target addr arg"
  using assms by (simp add: not_and_ff spec_relative_target_def spec_sign_extend_8_def)

lemma code_target_forward:
  assumes "0 \<le> arg" "arg < 0x80"
  shows "addr - (NOT arg AND 0xff) + 1 = spec_relative_target addr arg - 256"
  using assms by (simp add: not_and_ff spec_relative_target_def spec_sign_extend_8_def)

text \<open>
  Claim C3. The claim equates \<open>addr - (~arg & 0xff) + 1\<close> with
  \<open>addr + 2 + sign_extend_8 arg\<close> for every displacement byte. For the unconditional
  relative jump \<open>18 10\<close> at address \<open>0x0100\<close> the function returns the target \<open>0x0012\<close>,
  while the address after the instruction plus the displacement \<open>+16\<close> is \<open>0x0112\<close>.
\<close>

theorem jr_forward_target_differs:
  "perform_get_instruction_info sample_opcodes [0x18, 0x10] 0x100 =
     Inr (Some \<lparr>length_ii = 2, branches = [(UnconditionalBranch, Some 0x12)]\<rparr>)
   \<and> spec_relative_target 0x100 0x10 = 0x112"
  using sample_18
  by (simp add: jr_entry not_and_ff_byte spec_relative_target_def spec_sign_extend_8_def)

section \<open>The range of the targets\<close>

text \<open>
  Claim C8. The claim bounds every target by the 16-bit range. The code adds Python
  integers and reduces nothing modulo 65536: the conditional relative jump \<open>28 10\<close> at
  address \<open>0xffff\<close> has the targets \<open>0x10011\<close> and \<open>0x10001\<close>.
\<close>

theorem target_above_16_bits:
  "perform_get_instruction_info sample_opcodes [0x28, 0x10] 0xffff =
     Inr (Some \<lparr>length_ii = 2,
       branches = [(TrueBranch, Some 0x10011), (FalseBranch, Some 0x10001)]\<rparr>)"
  using sample_28 by (simp add: jr_entry)

lemma unpack_B_bounds: "unpack_B s = Inr v \<Longrightarrow> 0 \<le> v \<and> v < 256"
  using uint_byte_bounds by (auto simp add: unpack_B_def split: list.splits)

lemma unpack_H_bounds: "unpack_H s = Inr v \<Longrightarrow> 0 \<le> v \<and> v < 65536"
proof -
  assume "unpack_H s = Inr v"
  then obtain lo hi where "s = [lo, hi]" and v: "v = uint lo + 256 * uint hi"
    by (auto simp add: unpack_H_def split: list.splits)
  show ?thesis
    using uint_byte_bounds[of lo] uint_byte_bounds[of hi] by (simp add: v)
qed

text \<open>
  Claim C8, as the code has it. For every address in 0..65535, every table and every
  byte string, each target of a returned branch is an integer between -254 and 65792;
  it is not reduced modulo 65536, so a jump back from the bottom of the address space
  has a negative target and a jump on from its top a target above \<open>0xffff\<close>.
\<close>

theorem targets_not_wrapped:
  assumes "0 \<le> addr" "addr \<le> 65535"
    and "perform_get_instruction_info opcodes data addr = Inr (Some i_info)"
    and "(ty, Some t) \<in> set (branches i_info)"
  shows "- 254 \<le> t \<and> t \<le> 65792"
proof -
  have nb: "\<And>a. 0 \<le> a \<and> a < 256 \<Longrightarrow> NOT a AND 0xff = 255 - (a::int)"
    by (simp add: not_and_ff)
  show ?thesis
    using assms
    by (auto simp add: perform_get_instruction_info_def add_branch_def Let_def nb
        split: sum.splits option.splits if_splits
        dest!: unpack_B_bounds unpack_H_bounds)
qed

theorem targets_not_wrapped_witness:
  "perform_get_instruction_info sample_opcodes [0x18, 0x80] 0 =
     Inr (Some \<lparr>length_ii = 2, branches = [(UnconditionalBranch, Some (- 126))]\<rparr>)
   \<and> perform_get_instruction_info sample_opcodes [0x28, 0x10] 0xffff =
     Inr (Some \<lparr>length_ii = 2,
       branches = [(TrueBranch, Some 0x10011), (FalseBranch, Some 0x10001)]\<rparr>)
   \<and> - 254 \<le> (- 126 :: int) \<and> (0x10011 :: int) \<le> 65792"
  using sample_18 sample_28
    targets_not_wrapped [where opcodes = sample_opcodes and data = "[0x18, 0x80]" and addr = 0
      and i_info = "\<lparr>length_ii = 2, branches = [(UnconditionalBranch, Some (- 126))]\<rparr>"
      and ty = UnconditionalBranch and t = "- 126"]
    targets_not_wrapped [where opcodes = sample_opcodes and data = "[0x28, 0x10]"
      and addr = "0xffff"
      and i_info = "\<lparr>length_ii = 2,
         branches = [(TrueBranch, Some 0x10011), (FalseBranch, Some 0x10001)]\<rparr>"
      and ty = TrueBranch and t = "0x10011"]
  by (simp add: jr_entry not_and_ff_byte)

section \<open>Operand tokens\<close>

text \<open>A byte has one or two hexadecimal digits, so \<open>%.4x\<close> puts two zeros before \<open>%.2x\<close>.\<close>

lemma hex_length_byte:
  assumes "n < 256"
  shows "length (hex n) = (if n < 16 then 1 else 2)"
proof (cases "n < 16")
  case True
  then show ?thesis by (simp add: hex.simps[of n])
next
  case False
  with assms have "n div 16 < 16" by simp
  then show ?thesis using False by (simp add: hex.simps[of n] hex.simps[of "n div 16"])
qed

lemma fmt_x_byte:
  assumes "0 \<le> v" "v < 256"
  shows "fmt_x 4 v = ''00'' @ fmt_x 2 v" and "length (fmt_x 2 v) = 2"
proof -
  have n: "nat \<bar>v\<bar> < 256" using assms by simp
  have l: "length (hex (nat \<bar>v\<bar>)) = 1 \<or> length (hex (nat \<bar>v\<bar>)) = 2"
    using hex_length_byte[OF n] by (simp split: if_splits)
  have r: "replicate (4 - k) CHR ''0'' = ''00'' @ replicate (2 - k) CHR ''0''"
    if "k = 1 \<or> k = 2" for k
    using that by (auto simp add: numeral_eq_Suc)
  show "fmt_x 4 v = ''00'' @ fmt_x 2 v"
    using assms l by (simp add: fmt_x_def Let_def r)
  show "length (fmt_x 2 v) = 2"
    using assms l by (auto simp add: fmt_x_def Let_def)
qed

text \<open>With the opcode and two more bytes in the slice, \<open>get_token\<close> never fails.\<close>

lemma get_token_total: "\<exists>t. get_token operand (c # b1 # b2 # rest) = Inr t"
  by (simp add: get_token_def index_py_def unpack_B_def unpack_H_def slice_py_def)

lemma a8_search: "re_search tag8 ''(a8)''"
  by code_simp

lemma a8_match: "\<not> re_match tag8 ''(a8)''"
  by code_simp

lemma fmt_44: "fmt_x 4 0x44 = ''0044''" "fmt_x 2 0x44 = ''44''"
  by code_simp+

text \<open>
  Claim C10. For an operand descriptor that contains one of \<open>d8\<close>, \<open>r8\<close>, \<open>a8\<close> but does
  not start with it, \<open>get_token\<close> returns a \<open>PossibleAddressToken\<close> whose value is the
  second byte of the slice and whose text is \<open>0x\<close> followed by four hexadecimal
  digits: two zeros and then the two digits of the \<open>%.2x\<close> format.
\<close>

theorem get_token_address_form:
  assumes "re_search tag8 operand"
    and "\<not> re_match tag8 operand"
  shows "get_token operand (c # b # rest) =
           Inr \<lparr>token_type = PossibleAddressToken, token_text = ''0x'' @ fmt_x 4 (uint b),
                token_value = Some (uint b)\<rparr>
       \<and> fmt_x 4 (uint b) = ''00'' @ fmt_x 2 (uint b)
       \<and> length (fmt_x 2 (uint b)) = 2"
  using assms uint_byte_bounds[of b]
  by (simp add: get_token_def index_py_def unpack_B_def fmt_x_byte)

theorem get_token_address_form_witness:
  "get_token ''(a8)'' [0xe0, 0x44] =
     Inr \<lparr>token_type = PossibleAddressToken, token_text = ''0x0044'', token_value = Some 0x44\<rparr>"
  using a8_search a8_match fmt_44
    get_token_address_form [where operand = "''(a8)''" and c = "0xe0" and b = "0x44"
      and rest = "[]"]
  by simp

section \<open>The token sequence\<close>

lemma token_a16: "get_token ''a16'' [0xc3, 0x34, 0x12] =
    Inr \<lparr>token_type = IntegerToken, token_text = ''0x1234'', token_value = Some 0x1234\<rparr>"
  by code_simp

lemma token_A: "get_token ''A'' [0x3e, 0x7f] =
    Inr \<lparr>token_type = RegisterToken, token_text = ''a'', token_value = None\<rparr>"
  by code_simp

lemma token_d8: "get_token ''d8'' [0x3e, 0x7f] =
    Inr \<lparr>token_type = IntegerToken, token_text = ''0x7f'', token_value = Some 0x7f\<rparr>"
  by code_simp

lemma lower_samples: "lower ''RET'' = ''ret''" "lower ''JP'' = ''jp''" "lower ''LD'' = ''ld''"
  by code_simp+

text \<open>
  Claim C9. For an opcode with an entry, the renderer returns, with the entry's
  length, the mnemonic token (the mnemonic in lower case) and nothing else when the
  entry has no first operand; the mnemonic token, the separator of four spaces and
  the token of the first operand when there is no second operand; and these three
  followed by the separator \<open>, \<close> and the token of the second operand when there is
  one. The operand tokens are those of \<open>get_token\<close>, which succeeds whenever the
  slice holds the bytes it reads.
\<close>

theorem instruction_text_tokens:
  assumes "opcodes (opcode_key (uint c)) = Some op_info"
  shows "(operand1 op_info = None \<longrightarrow>
            perform_get_instruction_text opcodes (c # rest) addr =
              Inr (Some ([\<lparr>token_type = InstructionToken,
                             token_text = lower (mnemonic op_info), token_value = None\<rparr>],
                         length_op op_info)))
       \<and> (\<forall>o1 t1. operand1 op_info = Some o1 \<and> operand2 op_info = None
              \<and> get_token o1 (c # rest) = Inr t1 \<longrightarrow>
            perform_get_instruction_text opcodes (c # rest) addr =
              Inr (Some ([\<lparr>token_type = InstructionToken,
                             token_text = lower (mnemonic op_info), token_value = None\<rparr>,
                          \<lparr>token_type = OperandSeparatorToken, token_text = ''    '',
                             token_value = None\<rparr>,
                          t1],
                         length_op op_info)))
       \<and> (\<forall>o1 o2 t1 t2. operand1 op_info = Some o1 \<and> operand2 op_info = Some o2
              \<and> get_token o1 (c # rest) = Inr t1 \<and> get_token o2 (c # rest) = Inr t2 \<longrightarrow>
            perform_get_instruction_text opcodes (c # rest) addr =
              Inr (Some ([\<lparr>token_type = InstructionToken,
                             token_text = lower (mnemonic op_info), token_value = None\<rparr>,
                          \<lparr>token_type = OperandSeparatorToken, token_text = ''    '',
                             token_value = None\<rparr>,
                          t1,
                          \<lparr>token_type = OperandSeparatorToken, token_text = '', '',
                             token_value = None\<rparr>,
                          t2],
                         length_op op_info)))"
  using assms
  by (simp add: perform_get_instruction_text_def index_py_def unpack_B_def Let_def)

theorem instruction_text_tokens_witness:
  "perform_get_instruction_text sample_opcodes [0xc9] 0x150 =
     Inr (Some ([\<lparr>token_type = InstructionToken, token_text = ''ret'', token_value = None\<rparr>], 1))
   \<and> perform_get_instruction_text sample_opcodes [0xc3, 0x34, 0x12] 0x150 =
     Inr (Some ([\<lparr>token_type = InstructionToken, token_text = ''jp'', token_value = None\<rparr>,
                 \<lparr>token_type = OperandSeparatorToken, token_text = ''    '', token_value = None\<rparr>,
                 \<lparr>token_type = IntegerToken, token_text = ''0x1234'', token_value = Some 0x1234\<rparr>],
                3))
   \<and> perform_get_instruction_text sample_opcodes [0x3e, 0x7f] 0x150 =
     Inr (Some ([\<lparr>token_type = InstructionToken, token_text = ''ld'', token_value = None\<rparr>,
                 \<lparr>token_type = OperandSeparatorToken, token_text = ''    '', token_value = None\<rparr>,
                 \<lparr>token_type = RegisterToken, token_text = ''a'', token_value = None\<rparr>,
                 \<lparr>token_type = OperandSeparatorToken, token_text = '', '', token_value = None\<rparr>,
                 \<lparr>token_type = IntegerToken, token_text = ''0x7f'', token_value = Some 0x7f\<rparr>],
                2))"
  using sample_c9 sample_c3 sample_3e token_a16 token_A token_d8 lower_samples
    instruction_text_tokens [where opcodes = sample_opcodes and c = "0xc9" and rest = "[]"
      and addr = "0x150"]
    instruction_text_tokens [where opcodes = sample_opcodes and c = "0xc3"
      and rest = "[0x34, 0x12]" and addr = "0x150"]
    instruction_text_tokens [where opcodes = sample_opcodes and c = "0x3e" and rest = "[0x7f]"
      and addr = "0x150"]
  by simp

end
